theory Spec2Isabelle
  imports Main
begin

section \<open>The asset generator \<^verbatim>\<open>convert-svg.py\<close>\<close>

text \<open>
  The script rasterises two SVG templates into four PNG files. Everything it does is an
  effect: it creates a directory, tests two files for existence, calls the external
  rasteriser \<^verbatim>\<open>cairosvg.svg2png\<close>, writes files and prints lines. The model therefore
  threads a world (the file system and the list of effects attempted so far) through
  every call, and an exception is the \<open>Inl\<close> branch of a call's result. The rasteriser is
  not code of the script: it is a parameter of the model.

  Out of the model: the import fallback at module level (\<^verbatim>\<open>os.system("pip install ...")\<close>),
  permissions, disk space, symbolic links and the encoding of the console.
\<close>

subsection \<open>Paths (\<^verbatim>\<open>pathlib.Path\<close>)\<close>

text \<open>
  A path is its anchor (\<^verbatim>\<open>"/"\<close> for an absolute POSIX path, empty for a relative one)
  and its list of segments, as \<^verbatim>\<open>pathlib\<close> keeps them.
\<close>

datatype path = Path (anchor: string) (parts: "string list")

fun join_with :: "string \<Rightarrow> string list \<Rightarrow> string" where
  "join_with sep [] = []"
| "join_with sep [x] = x"
| "join_with sep (x # y # ys) = x @ sep @ join_with sep (y # ys)"

text \<open>\<^verbatim>\<open>str(p)\<close>: the path with no anchor and no segment prints as a dot.\<close>

definition path_str :: "path \<Rightarrow> string" where
  "path_str p =
     (if anchor p = [] \<and> parts p = [] then ''.''
      else anchor p @ join_with ''/'' (parts p))"

text \<open>\<^verbatim>\<open>p / seg\<close> for a segment that is one relative name, as every literal of the script is.\<close>

definition joinpath :: "path \<Rightarrow> string \<Rightarrow> path" where
  "joinpath p seg = Path (anchor p) (parts p @ [seg])"

text \<open>\<^verbatim>\<open>p.parent\<close>: the path without its last segment; a path with no segment is its own parent.\<close>

definition parent :: "path \<Rightarrow> path" where
  "parent p = Path (anchor p) (butlast (parts p))"

text \<open>\<^verbatim>\<open>p.name\<close>: the last segment, empty when there is none.\<close>

definition path_name :: "path \<Rightarrow> string" where
  "path_name p = (if parts p = [] then [] else last (parts p))"

subsection \<open>The world: file system and effects\<close>

type_synonym bytes = "char list"

datatype node = File bytes | Dir

type_synonym filesystem = "path \<rightharpoonup> node"

datatype exn =
    FileNotFoundError path
  | FileExistsError path
  | NotADirectoryError path
  | IsADirectoryError path
  | External string

text \<open>
  Every effect the script attempts is logged when it is attempted, whether it then
  succeeds or raises; \<open>Wrote\<close> is logged by a write that was carried out.
\<close>

datatype event =
    Printed string
  | Mkdir path
  | Exists path
  | Svg2png string int int
  | Open_wb path
  | Wrote path bytes

record world =
  files :: filesystem
  events :: "event list"

type_synonym 'a io = "world \<Rightarrow> (exn + 'a) \<times> world"

definition emit :: "event \<Rightarrow> world \<Rightarrow> world" where
  "emit e w = w\<lparr>events := events w @ [e]\<rparr>"

text \<open>Sequencing of statements: an exception of the first ends the sequence.\<close>

definition bind_io :: "'a io \<Rightarrow> ('a \<Rightarrow> 'b io) \<Rightarrow> 'b io" where
  "bind_io m k w = (case m w of (Inl e, w') \<Rightarrow> (Inl e, w') | (Inr x, w') \<Rightarrow> k x w')"

definition then_io :: "'a io \<Rightarrow> 'b io \<Rightarrow> 'b io" where
  "then_io m k = bind_io m (\<lambda>_. k)"

definition return_io :: "'a \<Rightarrow> 'a io" where
  "return_io x w = (Inr x, w)"

definition print_line :: "string \<Rightarrow> unit io" where
  "print_line s w = (Inr (), emit (Printed s) w)"

text \<open>
  \<^verbatim>\<open>os.mkdir(p)\<close>: refuses an existing path, a missing parent and a parent that is a file.
\<close>

definition os_mkdir :: "path \<Rightarrow> filesystem \<Rightarrow> exn + filesystem" where
  "os_mkdir p f =
     (case f p of
        Some _ \<Rightarrow> Inl (FileExistsError p)
      | None \<Rightarrow>
          (case f (parent p) of
             None \<Rightarrow> Inl (FileNotFoundError p)
           | Some (File _) \<Rightarrow> Inl (NotADirectoryError p)
           | Some Dir \<Rightarrow> Inr (f(p \<mapsto> Dir))))"

definition is_dir :: "path \<Rightarrow> filesystem \<Rightarrow> bool" where
  "is_dir p f = (f p = Some Dir)"

text \<open>
  \<^verbatim>\<open>p.mkdir(exist_ok=True)\<close>, with \<^verbatim>\<open>parents\<close> left at its default \<^verbatim>\<open>False\<close>. In
  \<^verbatim>\<open>pathlib\<close> the call is \<^verbatim>\<open>os.mkdir\<close> in a \<^verbatim>\<open>try\<close>: a \<^verbatim>\<open>FileNotFoundError\<close> is raised
  again since \<^verbatim>\<open>parents\<close> is false; any other \<^verbatim>\<open>OSError\<close> is raised again unless
  \<^verbatim>\<open>exist_ok\<close> holds and the path is a directory.
\<close>

definition mkdir_exist_ok :: "path \<Rightarrow> unit io" where
  "mkdir_exist_ok p w =
     (let w' = emit (Mkdir p) w in
      case os_mkdir p (files w') of
        Inr f' \<Rightarrow> (Inr (), w'\<lparr>files := f'\<rparr>)
      | Inl e \<Rightarrow>
          (case e of
             FileNotFoundError q \<Rightarrow> (Inl e, w')
           | _ \<Rightarrow> if is_dir p (files w') then (Inr (), w') else (Inl e, w')))"

text \<open>\<^verbatim>\<open>p.exists()\<close>.\<close>

definition path_exists :: "path \<Rightarrow> bool io" where
  "path_exists p w = (Inr (files w p \<noteq> None), emit (Exists p) w)"

text \<open>
  The exception \<^verbatim>\<open>open(p, 'wb')\<close> raises, if any: on a directory, on a missing parent and
  on a parent that is a file.
\<close>

definition open_wb_exn :: "filesystem \<Rightarrow> path \<Rightarrow> exn option" where
  "open_wb_exn f p =
     (case f p of
        Some Dir \<Rightarrow> Some (IsADirectoryError p)
      | Some (File _) \<Rightarrow> None
      | None \<Rightarrow>
          (case f (parent p) of
             None \<Rightarrow> Some (FileNotFoundError p)
           | Some (File _) \<Rightarrow> Some (NotADirectoryError p)
           | Some Dir \<Rightarrow> None))"

text \<open>\<^verbatim>\<open>open(p, 'wb')\<close>: when it does not raise, the file exists afterwards and is empty.\<close>

definition open_wb :: "path \<Rightarrow> unit io" where
  "open_wb p w =
     (let w' = emit (Open_wb p) w in
      case open_wb_exn (files w') p of
        Some e \<Rightarrow> (Inl e, w')
      | None \<Rightarrow> (Inr (), w'\<lparr>files := (files w')(p \<mapsto> File [])\<rparr>))"

text \<open>\<^verbatim>\<open>f.write(data)\<close> on the file opened at \<open>p\<close>, and its close at the end of \<^verbatim>\<open>with\<close>.\<close>

definition file_write :: "path \<Rightarrow> bytes \<Rightarrow> unit io" where
  "file_write p d w = (Inr (), (emit (Wrote p d) w)\<lparr>files := (files w)(p \<mapsto> File d)\<rparr>)"

text \<open>
  The rasteriser is external: given the file system it reads, the URL and the requested
  size, it returns the bytes of a PNG or raises.
\<close>

type_synonym rasterizer = "filesystem \<Rightarrow> string \<Rightarrow> int \<Rightarrow> int \<Rightarrow> exn + bytes"

definition svg2png :: "rasterizer \<Rightarrow> string \<Rightarrow> int \<Rightarrow> int \<Rightarrow> bytes io" where
  "svg2png rast url output_width output_height w =
     (let w' = emit (Svg2png url output_width output_height) w in
      (rast (files w') url output_width output_height, w'))"

subsection \<open>Formatting\<close>

text \<open>\<^verbatim>\<open>str(n)\<close> of an integer, as an f-string renders it.\<close>

fun show_nat :: "nat \<Rightarrow> string" where
  "show_nat n =
     (if n < 10 then [''0123456789'' ! n]
      else show_nat (n div 10) @ [''0123456789'' ! (n mod 10)])"

declare show_nat.simps [simp del]

definition show_int :: "int \<Rightarrow> string" where
  "show_int i = (if i < 0 then CHR ''-'' # show_nat (nat (- i)) else show_nat (nat i))"

text \<open>The two symbols of the messages, as their UTF-8 bytes: U+2713 and U+2705.\<close>

definition check_mark :: string where
  "check_mark = [CHR 0xE2, CHR 0x9C, CHR 0x93]"

definition check_box :: string where
  "check_box = [CHR 0xE2, CHR 0x9C, CHR 0x85]"

definition converting_msg :: "path \<Rightarrow> path \<Rightarrow> int \<Rightarrow> int \<Rightarrow> string" where
  "converting_msg svg_path png_path width height =
     ''Converting '' @ path_str svg_path @ '' to '' @ path_str png_path @
     '' ('' @ show_int width @ ''x'' @ show_int height @ '')...''"

definition created_msg :: "path \<Rightarrow> string" where
  "created_msg png_path = check_mark @ '' '' @ path_name png_path @ '' created''"

definition not_found_msg :: "path \<Rightarrow> string" where
  "not_found_msg p = ''Error: '' @ path_str p @ '' not found!''"

definition summary_lines :: "string list" where
  "summary_lines =
     [CHR 0x0A # check_box @ '' All assets converted successfully!'',
      CHR 0x0A # ''Generated files:'',
      ''  - assets/icons/icon.png (1024x1024)'',
      ''  - assets/icons/adaptive-icon.png (1024x1024)'',
      ''  - assets/icons/favicon.png (48x48)'',
      ''  - assets/splash.png (1284x2778)'']"

subsection \<open>The script\<close>

definition convert_svg_to_png :: "rasterizer \<Rightarrow> path \<Rightarrow> path \<Rightarrow> int \<Rightarrow> int \<Rightarrow> unit io" where
  "convert_svg_to_png rast svg_path png_path width height =
     then_io (print_line (converting_msg svg_path png_path width height))
    (bind_io (svg2png rast (path_str svg_path) width height) (\<lambda>png_data.
     then_io (open_wb png_path)
    (then_io (file_write png_path png_data)
    (print_line (created_msg png_path)))))"

text \<open>The six \<^verbatim>\<open>print\<close> calls that end a successful \<^verbatim>\<open>main\<close>.\<close>

definition print_summary :: "unit io" where
  "print_summary =
     then_io (print_line (summary_lines ! 0))
    (then_io (print_line (summary_lines ! 1))
    (then_io (print_line (summary_lines ! 2))
    (then_io (print_line (summary_lines ! 3))
    (then_io (print_line (summary_lines ! 4))
    (print_line (summary_lines ! 5))))))"

text \<open>\<^verbatim>\<open>main()\<close>; \<open>file\<close> is the value of \<^verbatim>\<open>Path(__file__)\<close>.\<close>

definition main :: "rasterizer \<Rightarrow> path \<Rightarrow> int io" where
  "main rast file =
     (let assets_dir = parent file;
          icons_dir = joinpath assets_dir ''icons''
      in
      then_io (mkdir_exist_ok icons_dir)
       (let icon_svg = joinpath assets_dir ''PLACEHOLDER_ICON.svg'';
            splash_svg = joinpath assets_dir ''PLACEHOLDER_SPLASH.svg''
        in
        bind_io (path_exists icon_svg) (\<lambda>icon_found.
          if \<not> icon_found then
            then_io (print_line (not_found_msg icon_svg)) (return_io 1)
          else
        bind_io (path_exists splash_svg) (\<lambda>splash_found.
          if \<not> splash_found then
            then_io (print_line (not_found_msg splash_svg)) (return_io 1)
          else
            then_io (convert_svg_to_png rast icon_svg (joinpath icons_dir ''icon.png'') 1024 1024)
           (then_io (convert_svg_to_png rast icon_svg (joinpath icons_dir ''adaptive-icon.png'') 1024 1024)
           (then_io (convert_svg_to_png rast icon_svg (joinpath icons_dir ''favicon.png'') 48 48)
           (then_io (convert_svg_to_png rast splash_svg (joinpath assets_dir ''splash.png'') 1284 2778)
           (then_io print_summary
           (return_io 0)))))))))"

text \<open>
  \<^verbatim>\<open>exit(main())\<close>: the status of the process is the value \<^verbatim>\<open>main\<close> returns, and 1 when
  an exception leaves \<^verbatim>\<open>main\<close> uncaught.
\<close>

definition exit_status :: "exn + int \<Rightarrow> int" where
  "exit_status r = (case r of Inr n \<Rightarrow> n | Inl e \<Rightarrow> 1)"

subsection \<open>The paths and the batch of a run\<close>

text \<open>The paths \<^verbatim>\<open>main\<close> computes from \<^verbatim>\<open>__file__\<close>, by the names its local variables have.\<close>

definition assets_dir :: "path \<Rightarrow> path" where
  "assets_dir file = parent file"

definition icons_dir :: "path \<Rightarrow> path" where
  "icons_dir file = joinpath (parent file) ''icons''"

definition icon_svg :: "path \<Rightarrow> path" where
  "icon_svg file = joinpath (parent file) ''PLACEHOLDER_ICON.svg''"

definition splash_svg :: "path \<Rightarrow> path" where
  "splash_svg file = joinpath (parent file) ''PLACEHOLDER_SPLASH.svg''"

definition icon_png :: "path \<Rightarrow> path" where
  "icon_png file = joinpath (icons_dir file) ''icon.png''"

definition adaptive_icon_png :: "path \<Rightarrow> path" where
  "adaptive_icon_png file = joinpath (icons_dir file) ''adaptive-icon.png''"

definition favicon_png :: "path \<Rightarrow> path" where
  "favicon_png file = joinpath (icons_dir file) ''favicon.png''"

definition splash_png :: "path \<Rightarrow> path" where
  "splash_png file = joinpath (parent file) ''splash.png''"

text \<open>
  A job is the argument list of one call of \<^verbatim>\<open>convert_svg_to_png\<close>; the batch is the four
  calls of \<^verbatim>\<open>main\<close> in the order of the source (\<open>main_batch\<close> below proves it).
\<close>

type_synonym job = "path \<times> path \<times> int \<times> int"


definition job_dst :: "job \<Rightarrow> path" where
  "job_dst j = fst (snd j)"

definition job_request :: "job \<Rightarrow> string \<times> int \<times> int" where
  "job_request j = (case j of (s, d, wd, ht) \<Rightarrow> (path_str s, wd, ht))"

definition batch :: "path \<Rightarrow> job list" where
  "batch file =
     [(icon_svg file, icon_png file, 1024, 1024),
      (icon_svg file, adaptive_icon_png file, 1024, 1024),
      (icon_svg file, favicon_png file, 48, 48),
      (splash_svg file, splash_png file, 1284, 2778)]"

definition convert_job :: "rasterizer \<Rightarrow> job \<Rightarrow> unit io" where
  "convert_job rast j = (case j of (s, d, wd, ht) \<Rightarrow> convert_svg_to_png rast s d wd ht)"

fun run_batch :: "rasterizer \<Rightarrow> job list \<Rightarrow> unit io" where
  "run_batch rast [] = return_io ()"
| "run_batch rast (j # js) = then_io (convert_job rast j) (run_batch rast js)"

text \<open>The effects of a conversion that returns, having written \<open>data\<close>.\<close>

definition conv_events :: "job \<Rightarrow> bytes \<Rightarrow> event list" where
  "conv_events j data = (case j of (s, d, wd, ht) \<Rightarrow>
     [Printed (converting_msg s d wd ht), Svg2png (path_str s) wd ht, Open_wb d, Wrote d data,
      Printed (created_msg d)])"


text \<open>
  What a list of effects holds: the rasterisations requested, the files written, the
  lines printed.
\<close>

fun requests :: "event list \<Rightarrow> (string \<times> int \<times> int) list" where
  "requests [] = []"
| "requests (Svg2png u wd ht # es) = (u, wd, ht) # requests es"
| "requests (_ # es) = requests es"

fun written :: "event list \<Rightarrow> (path \<times> bytes) list" where
  "written [] = []"
| "written (Wrote p d # es) = (p, d) # written es"
| "written (_ # es) = written es"

fun printed :: "event list \<Rightarrow> string list" where
  "printed [] = []"
| "printed (Printed s # es) = s # printed es"
| "printed (_ # es) = printed es"

subsection \<open>An assumption on the rasteriser\<close>


subsection \<open>A concrete installation\<close>

text \<open>
  The script at \<^verbatim>\<open>/app/assets/convert-svg.py\<close> beside its two templates, and a rasteriser
  that reads the template it is asked for.
\<close>

definition demo_file :: path where
  "demo_file = Path ''/'' [''app'', ''assets'', ''convert-svg.py'']"

definition demo_tree :: "(path \<times> node) list" where
  "demo_tree =
     [(Path ''/'' [], Dir),
      (Path ''/'' [''app''], Dir),
      (Path ''/'' [''app'', ''assets''], Dir),
      (Path ''/'' [''app'', ''assets'', ''convert-svg.py''], File ''#!/usr/bin/env python3''),
      (Path ''/'' [''app'', ''assets'', ''PLACEHOLDER_ICON.svg''], File ''<svg>icon</svg>''),
      (Path ''/'' [''app'', ''assets'', ''PLACEHOLDER_SPLASH.svg''], File ''<svg>splash</svg>'')]"

definition world_of :: "(path \<times> node) list \<Rightarrow> world" where
  "world_of tree = \<lparr>files = map_of tree, events = []\<rparr>"

text \<open>
  The demonstration rasteriser answers with the first 24 bytes of a PNG file (signature,
  length and type of the header chunk, width and height as big-endian 32-bit numbers)
  followed by the source it read; \<open>png_size\<close> reads the size back from these bytes.
\<close>

definition be32 :: "int \<Rightarrow> bytes" where
  "be32 n = map (\<lambda>k. char_of (n div 256 ^ k mod 256)) [3, 2, 1, 0::nat]"

definition png_header :: "int \<Rightarrow> int \<Rightarrow> bytes" where
  "png_header wd ht =
     [CHR 0x89, CHR ''P'', CHR ''N'', CHR ''G'', CHR 0x0D, CHR 0x0A, CHR 0x1A, CHR 0x0A,
      CHR 0x00, CHR 0x00, CHR 0x00, CHR 0x0D, CHR ''I'', CHR ''H'', CHR ''D'', CHR ''R'']
     @ be32 wd @ be32 ht"



definition demo_rast :: rasterizer where
  "demo_rast f url wd ht =
     (case map_of
        [(''/app/assets/PLACEHOLDER_ICON.svg'',
            Path ''/'' [''app'', ''assets'', ''PLACEHOLDER_ICON.svg'']),
         (''/app/assets/PLACEHOLDER_SPLASH.svg'',
            Path ''/'' [''app'', ''assets'', ''PLACEHOLDER_SPLASH.svg''])] url of
        None \<Rightarrow> Inl (External ''unknown url'')
      | Some p \<Rightarrow>
          (case f p of
             Some (File svg) \<Rightarrow>
               if 0 < wd \<and> wd < 2 ^ 31 \<and> 0 < ht \<and> ht < 2 ^ 31
               then Inr (png_header wd ht @ svg)
               else Inl (External ''invalid size'')
           | _ \<Rightarrow> Inl (FileNotFoundError p)))"

text \<open>
  Variations of the installation: a template taken away, and a regular file standing
  where the icons directory is expected.
\<close>

definition without :: "path \<Rightarrow> (path \<times> node) list \<Rightarrow> (path \<times> node) list" where
  "without p tree = filter (\<lambda>entry. fst entry \<noteq> p) tree"

definition blocked_tree :: "(path \<times> node) list" where
  "blocked_tree = (Path ''/'' [''app'', ''assets'', ''icons''], File ''not a directory'') # demo_tree"



text \<open>
  And one in which the icons directory exists already and holds a file of its own beside
  an older \<^verbatim>\<open>icon.png\<close>.
\<close>

definition kept_tree :: "(path \<times> node) list" where
  "kept_tree = demo_tree @
     [(Path ''/'' [''app'', ''assets'', ''icons''], Dir),
      (Path ''/'' [''app'', ''assets'', ''icons'', ''notes.txt''], File ''keep me''),
      (Path ''/'' [''app'', ''assets'', ''icons'', ''icon.png''], File ''old icon'')]"

section \<open>Lemmas on the model\<close>

subsection \<open>Effects and sequencing\<close>

lemma requests_append [simp]: "requests (xs @ ys) = requests xs @ requests ys"
  by (induction xs rule: requests.induct) simp_all

lemma written_append [simp]: "written (xs @ ys) = written xs @ written ys"
  by (induction xs rule: written.induct) simp_all

lemma printed_append [simp]: "printed (xs @ ys) = printed xs @ printed ys"
  by (induction xs rule: printed.induct) simp_all

lemma then_io_assoc: "then_io (then_io a b) c = then_io a (then_io b c)"
  by (rule ext) (simp add: then_io_def bind_io_def split: prod.splits sum.splits)

lemma then_return_unit: "then_io (return_io ()) k = k"
  by (rule ext) (simp add: then_io_def bind_io_def return_io_def)

lemma main_batch:
  "main rast file =
     then_io (mkdir_exist_ok (icons_dir file))
       (bind_io (path_exists (icon_svg file)) (\<lambda>icon_found.
          if \<not> icon_found then then_io (print_line (not_found_msg (icon_svg file))) (return_io 1)
          else bind_io (path_exists (splash_svg file)) (\<lambda>splash_found.
            if \<not> splash_found then then_io (print_line (not_found_msg (splash_svg file))) (return_io 1)
            else then_io (run_batch rast (batch file)) (then_io print_summary (return_io 0)))))"
  by (simp add: main_def Let_def batch_def convert_job_def then_io_assoc then_return_unit
      icons_dir_def icon_svg_def splash_svg_def icon_png_def adaptive_icon_png_def
      favicon_png_def splash_png_def cong: if_cong)

subsection \<open>One conversion, the directory step, the batch\<close>

lemma convert_run:
  "convert_svg_to_png rast s d wd ht w =
     (case rast (files w) (path_str s) wd ht of
        Inl e \<Rightarrow> (Inl e, w\<lparr>events := events w @
                  [Printed (converting_msg s d wd ht), Svg2png (path_str s) wd ht]\<rparr>)
      | Inr data \<Rightarrow>
         (case open_wb_exn (files w) d of
            Some e \<Rightarrow> (Inl e, w\<lparr>events := events w @
                  [Printed (converting_msg s d wd ht), Svg2png (path_str s) wd ht, Open_wb d]\<rparr>)
          | None \<Rightarrow> (Inr (), w\<lparr>files := (files w)(d \<mapsto> File data),
                  events := events w @ conv_events (s, d, wd, ht) data\<rparr>)))"
  by (simp add: convert_svg_to_png_def then_io_def bind_io_def print_line_def svg2png_def
      open_wb_def file_write_def emit_def Let_def conv_events_def
      split: sum.splits option.splits)

lemma requests_conv_events [simp]: "requests (conv_events j d) = [job_request j]"
  by (cases j) (simp add: conv_events_def job_request_def)

lemma written_conv_events [simp]: "written (conv_events j d) = [(job_dst j, d)]"
  by (cases j) (simp add: conv_events_def job_dst_def)



lemma mkdir_run:
  assumes "mkdir_exist_ok p w = (r, w')"
  shows "events w' = events w @ [Mkdir p]"
    and "\<And>u. r = Inr u \<Longrightarrow> files w' = (files w)(p \<mapsto> Dir) \<and>
           (files w p = Some Dir \<or> files w p = None \<and> files w (parent p) = Some Dir)"
    and "\<And>e. r = Inl e \<Longrightarrow> files w' = files w \<and> files w p \<noteq> Some Dir \<and>
           (files w p = None \<longrightarrow> files w (parent p) \<noteq> Some Dir)"
  using assms
  by (auto simp: mkdir_exist_ok_def os_mkdir_def emit_def Let_def is_dir_def
      split: option.splits node.splits sum.splits exn.splits if_splits)



lemma print_summary_run:
  "print_summary w = (Inr (), w\<lparr>events := events w @ map Printed summary_lines\<rparr>)"
  by (simp add: print_summary_def then_io_def bind_io_def print_line_def emit_def summary_lines_def)

lemma main_run:
  assumes "main rast file w = (r, w')"
  obtains
    (mkdir_raises) e where "r = Inl e" "mkdir_exist_ok (icons_dir file) w = (Inl e, w')"
  | (icon_missing) w0 where "mkdir_exist_ok (icons_dir file) w = (Inr (), w0)"
      "files w0 (icon_svg file) = None" "r = Inr 1"
      "w' = w0\<lparr>events := events w0 @ [Exists (icon_svg file), Printed (not_found_msg (icon_svg file))]\<rparr>"
  | (splash_missing) w0 where "mkdir_exist_ok (icons_dir file) w = (Inr (), w0)"
      "files w0 (icon_svg file) \<noteq> None" "files w0 (splash_svg file) = None" "r = Inr 1"
      "w' = w0\<lparr>events := events w0 @ [Exists (icon_svg file), Exists (splash_svg file),
              Printed (not_found_msg (splash_svg file))]\<rparr>"
  | (batch_raises) w0 e where "mkdir_exist_ok (icons_dir file) w = (Inr (), w0)"
      "files w0 (icon_svg file) \<noteq> None" "files w0 (splash_svg file) \<noteq> None" "r = Inl e"
      "run_batch rast (batch file)
         (w0\<lparr>events := events w0 @ [Exists (icon_svg file), Exists (splash_svg file)]\<rparr>) = (Inl e, w')"
  | (success) w0 w4 where "mkdir_exist_ok (icons_dir file) w = (Inr (), w0)"
      "files w0 (icon_svg file) \<noteq> None" "files w0 (splash_svg file) \<noteq> None" "r = Inr 0"
      "run_batch rast (batch file)
         (w0\<lparr>events := events w0 @ [Exists (icon_svg file), Exists (splash_svg file)]\<rparr>) = (Inr (), w4)"
      "w' = w4\<lparr>events := events w4 @ map Printed summary_lines\<rparr>"
proof (cases "mkdir_exist_ok (icons_dir file) w")
  case (Pair r0 w0)
  show ?thesis
  proof (cases r0)
    case (Inl e)
    with Pair assms have "r = Inl e" "w' = w0"
      by (auto simp: main_batch then_io_def bind_io_def)
    with Pair Inl show ?thesis by (auto intro: mkdir_raises)
  next
    case (Inr u)
    with Pair have m: "mkdir_exist_ok (icons_dir file) w = (Inr (), w0)" by simp
    show ?thesis
    proof (cases "files w0 (icon_svg file) = None")
      case True
      with m assms show ?thesis
        by (intro icon_missing [of w0])
           (auto simp: main_batch then_io_def bind_io_def path_exists_def print_line_def
             return_io_def emit_def)
    next
      case icon: False
      show ?thesis
      proof (cases "files w0 (splash_svg file) = None")
        case True
        with m icon assms show ?thesis
          by (intro splash_missing [of w0])
             (auto simp: main_batch then_io_def bind_io_def path_exists_def print_line_def
               return_io_def emit_def)
      next
        case splash: False
        let ?w1 = "w0\<lparr>events := events w0 @ [Exists (icon_svg file), Exists (splash_svg file)]\<rparr>"
        from m icon splash assms have run:
          "then_io (run_batch rast (batch file)) (then_io print_summary (return_io 0)) ?w1 = (r, w')"
          by (auto simp: main_batch then_io_def bind_io_def path_exists_def emit_def)
        show ?thesis
        proof (cases "run_batch rast (batch file) ?w1")
          case (Pair rb wb)
          show ?thesis
          proof (cases rb)
            case (Inl e)
            with Pair run have "r = Inl e" "w' = wb"
              by (auto simp: then_io_def bind_io_def)
            with Pair Inl m icon splash show ?thesis
              by (intro batch_raises [of w0 e]) auto
          next
            case (Inr u)
            with Pair run have "r = Inr 0" "w' = wb\<lparr>events := events wb @ map Printed summary_lines\<rparr>"
              by (auto simp: then_io_def bind_io_def print_summary_run return_io_def)
            with Pair Inr m icon splash show ?thesis
              by (intro success [of w0 wb]) auto
          qed
        qed
      qed
    qed
  qed
qed

subsection \<open>The paths of a run\<close>

lemma show_int_vals:
  "show_int 1024 = ''1024''" "show_int 48 = ''48''"
  "show_int 1284 = ''1284''" "show_int 2778 = ''2778''"
  by (simp_all add: show_int_def show_nat.simps)

lemma demo_paths:
  "assets_dir demo_file = Path ''/'' [''app'', ''assets'']"
  "icons_dir demo_file = Path ''/'' [''app'', ''assets'', ''icons'']"
  "icon_svg demo_file = Path ''/'' [''app'', ''assets'', ''PLACEHOLDER_ICON.svg'']"
  "splash_svg demo_file = Path ''/'' [''app'', ''assets'', ''PLACEHOLDER_SPLASH.svg'']"
  "icon_png demo_file = Path ''/'' [''app'', ''assets'', ''icons'', ''icon.png'']"
  "adaptive_icon_png demo_file = Path ''/'' [''app'', ''assets'', ''icons'', ''adaptive-icon.png'']"
  "favicon_png demo_file = Path ''/'' [''app'', ''assets'', ''icons'', ''favicon.png'']"
  "splash_png demo_file = Path ''/'' [''app'', ''assets'', ''splash.png'']"
  by (simp_all add: demo_file_def assets_dir_def icons_dir_def icon_svg_def splash_svg_def
      icon_png_def adaptive_icon_png_def favicon_png_def splash_png_def joinpath_def parent_def)

lemma path_parents:
  "parent (icons_dir file) = assets_dir file"
  "parent (icon_png file) = icons_dir file"
  "parent (adaptive_icon_png file) = icons_dir file"
  "parent (favicon_png file) = icons_dir file"
  "parent (splash_png file) = assets_dir file"
  by (simp_all add: assets_dir_def icons_dir_def icon_png_def adaptive_icon_png_def
      favicon_png_def splash_png_def joinpath_def parent_def butlast_append)

lemma paths_differ:
  "icons_dir file \<noteq> icon_svg file" "icons_dir file \<noteq> splash_svg file"
  "icons_dir file \<noteq> icon_png file" "icons_dir file \<noteq> adaptive_icon_png file"
  "icons_dir file \<noteq> favicon_png file" "icons_dir file \<noteq> splash_png file"
  "icon_svg file \<noteq> splash_svg file"
  "icon_svg file \<noteq> icon_png file" "icon_svg file \<noteq> adaptive_icon_png file"
  "icon_svg file \<noteq> favicon_png file" "icon_svg file \<noteq> splash_png file"
  "splash_svg file \<noteq> icon_png file" "splash_svg file \<noteq> adaptive_icon_png file"
  "splash_svg file \<noteq> favicon_png file" "splash_svg file \<noteq> splash_png file"
  "icon_png file \<noteq> adaptive_icon_png file" "icon_png file \<noteq> favicon_png file"
  "icon_png file \<noteq> splash_png file" "adaptive_icon_png file \<noteq> favicon_png file"
  "adaptive_icon_png file \<noteq> splash_png file" "favicon_png file \<noteq> splash_png file"
  by (simp_all add: icons_dir_def icon_svg_def splash_svg_def icon_png_def adaptive_icon_png_def
      favicon_png_def splash_png_def joinpath_def parent_def)

lemmas paths_neq = paths_differ paths_differ [symmetric]

subsection \<open>What a batch requests, writes and prints\<close>



lemma printed_conv_events [simp]:
  "printed (conv_events j d) =
     (case j of (s, dst, wd, ht) \<Rightarrow> [converting_msg s dst wd ht, created_msg dst])"
  by (cases j) (simp add: conv_events_def)

lemma printed_map_Printed [simp]: "printed (map Printed xs) = xs"
  by (induction xs) simp_all
lemma requests_map_Printed [simp]: "requests (map Printed xs) = []"
  by (induction xs) simp_all
lemma written_map_Printed [simp]: "written (map Printed xs) = []"
  by (induction xs) simp_all

subsection \<open>Evaluating the concrete installation\<close>

lemmas demo_eval = main_batch batch_def demo_paths convert_job_def convert_run then_io_def
  bind_io_def mkdir_exist_ok_def os_mkdir_def emit_def path_exists_def world_of_def demo_tree_def
  demo_rast_def path_str_def parent_def open_wb_exn_def print_summary_run return_io_def Let_def
  print_line_def is_dir_def


lemmas tree_eval = without_def blocked_tree_def

subsection \<open>The files after a batch\<close>






subsection \<open>Running again\<close>

lemma mkdir_existing:
  "files w p = Some Dir \<Longrightarrow>
   mkdir_exist_ok p w = (Inr (), w\<lparr>events := events w @ [Mkdir p]\<rparr>)"
  by (simp add: mkdir_exist_ok_def os_mkdir_def emit_def is_dir_def Let_def)




subsection \<open>What every run leaves alone\<close>

lemma convert_job_any:
  assumes "convert_job rast j w = (r, w')"
  shows "(\<forall>p. p \<noteq> job_dst j \<longrightarrow> files w' p = files w p)
    \<and> (\<exists>evs. events w' = events w @ evs \<and> requests evs = [job_request j]
          \<and> set (map fst (written evs)) \<subseteq> {job_dst j})"
  using assms
  by (cases j) (auto simp: convert_job_def convert_run conv_events_def job_dst_def job_request_def
      split: sum.splits option.splits)

lemma run_batch_any:
  assumes "run_batch rast js w = (r, w')"
  shows "(\<forall>p. p \<notin> set (map job_dst js) \<longrightarrow> files w' p = files w p)
    \<and> (\<exists>evs. events w' = events w @ evs
          \<and> set (map fst (written evs)) \<subseteq> set (map job_dst js)
          \<and> (js \<noteq> [] \<longrightarrow> requests evs \<noteq> []))"
  using assms
proof (induction js arbitrary: w)
  case Nil
  then show ?case by (simp add: return_io_def)
next
  case (Cons j js)
  show ?case
  proof (cases "convert_job rast j w")
    case (Pair r1 w1)
    from convert_job_any [OF Pair] obtain evs1 where
      f1: "\<forall>p. p \<noteq> job_dst j \<longrightarrow> files w1 p = files w p"
      and e1: "events w1 = events w @ evs1" "requests evs1 = [job_request j]"
        "set (map fst (written evs1)) \<subseteq> {job_dst j}"
      by blast
    show ?thesis
    proof (cases r1)
      case (Inl e)
      with Pair Cons.prems have "w' = w1" by (simp add: then_io_def bind_io_def)
      with f1 e1 show ?thesis by auto
    next
      case (Inr u)
      with Pair Cons.prems have "run_batch rast js w1 = (r, w')"
        by (simp add: then_io_def bind_io_def)
      from Cons.IH [OF this] obtain evs where
        f2: "\<forall>p. p \<notin> set (map job_dst js) \<longrightarrow> files w' p = files w1 p"
        and e2: "events w' = events w1 @ evs" "set (map fst (written evs)) \<subseteq> set (map job_dst js)"
        by blast
      have "events w' = events w @ (evs1 @ evs)" by (simp add: e1 e2)
      moreover have "set (map fst (written (evs1 @ evs))) \<subseteq> set (map job_dst (j # js))"
        using e1(3) e2(2) by auto
      moreover have "requests (evs1 @ evs) \<noteq> []" by (simp add: e1)
      moreover have "\<forall>p. p \<notin> set (map job_dst (j # js)) \<longrightarrow> files w' p = files w p"
        using f1 f2 by simp
      ultimately show ?thesis by blast
    qed
  qed
qed

lemma batch_outputs:
  "set (map job_dst (batch file))
     = {icon_png file, adaptive_icon_png file, favicon_png file, splash_png file}"
  by (simp add: batch_def job_dst_def)

lemma main_any:
  assumes run: "main rast file w = (r, w')"
    and step: "mkdir_exist_ok (icons_dir file) w = (Inr (), w0)"
  shows "(\<forall>p. p \<notin> {icon_png file, adaptive_icon_png file, favicon_png file, splash_png file}
            \<longrightarrow> files w' p = files w0 p)
    \<and> (\<exists>evs. events w' = events w0 @ evs
          \<and> set (map fst (written evs))
              \<subseteq> {icon_png file, adaptive_icon_png file, favicon_png file, splash_png file}
          \<and> ((\<exists>e. r = Inl e) \<longrightarrow> requests evs \<noteq> []))"
  using run
proof (cases rule: main_run)
  case (mkdir_raises e)
  with step show ?thesis by simp
next
  case (icon_missing v0)
  with step have "v0 = w0" by simp
  with icon_missing show ?thesis by simp
next
  case (splash_missing v0)
  with step have "v0 = w0" by simp
  with splash_missing show ?thesis by simp
next
  case (batch_raises v0 e)
  with step have v0: "v0 = w0" by simp
  have "batch file \<noteq> []" by (simp add: batch_def)
  with run_batch_any [OF batch_raises(5), unfolded batch_outputs] obtain evs where
    a: "\<forall>p. p \<notin> {icon_png file, adaptive_icon_png file, favicon_png file, splash_png file}
         \<longrightarrow> files w' p = files v0 p"
    and b: "events w' = (events v0 @ [Exists (icon_svg file), Exists (splash_svg file)]) @ evs"
    and c: "set (map fst (written evs))
         \<subseteq> {icon_png file, adaptive_icon_png file, favicon_png file, splash_png file}"
    and d: "requests evs \<noteq> []"
    by auto
  let ?evs = "[Exists (icon_svg file), Exists (splash_svg file)] @ evs"
  have "events w' = events w0 @ ?evs" using b v0 by simp
  moreover have "set (map fst (written ?evs))
      \<subseteq> {icon_png file, adaptive_icon_png file, favicon_png file, splash_png file}"
    using c by simp
  moreover have "requests ?evs \<noteq> []" using d by simp
  ultimately have "\<exists>evs. events w' = events w0 @ evs
          \<and> set (map fst (written evs))
              \<subseteq> {icon_png file, adaptive_icon_png file, favicon_png file, splash_png file}
          \<and> ((\<exists>e. r = Inl e) \<longrightarrow> requests evs \<noteq> [])"
    by blast
  with a v0 show ?thesis by simp
next
  case (success v0 w4)
  with step have v0: "v0 = w0" by simp
  from run_batch_any [OF success(5), unfolded batch_outputs] obtain evs where
    a: "\<forall>p. p \<notin> {icon_png file, adaptive_icon_png file, favicon_png file, splash_png file}
         \<longrightarrow> files w4 p = files v0 p"
    and b: "events w4 = (events v0 @ [Exists (icon_svg file), Exists (splash_svg file)]) @ evs"
    and c: "set (map fst (written evs))
         \<subseteq> {icon_png file, adaptive_icon_png file, favicon_png file, splash_png file}"
    by auto
  let ?evs = "[Exists (icon_svg file), Exists (splash_svg file)] @ evs @ map Printed summary_lines"
  have "events w' = events w0 @ ?evs" using b v0 success(6) by simp
  moreover have "set (map fst (written ?evs))
      \<subseteq> {icon_png file, adaptive_icon_png file, favicon_png file, splash_png file}"
    using c by simp
  moreover have "(\<exists>e. r = Inl e) \<longrightarrow> requests ?evs \<noteq> []" using success(4) by simp
  ultimately have "\<exists>evs. events w' = events w0 @ evs
          \<and> set (map fst (written evs))
              \<subseteq> {icon_png file, adaptive_icon_png file, favicon_png file, splash_png file}
          \<and> ((\<exists>e. r = Inl e) \<longrightarrow> requests evs \<noteq> [])"
    by blast
  moreover have "\<forall>p. p \<notin> {icon_png file, adaptive_icon_png file, favicon_png file, splash_png file}
            \<longrightarrow> files w' p = files w0 p"
    using a v0 success(6) by simp
  ultimately show ?thesis by simp
qed

lemma kept_run: "fst (main demo_rast demo_file (world_of kept_tree)) = Inr 0"
  by (simp add: demo_eval kept_tree_def)

lemma demo_main_requests:
  "requests (events (snd (main demo_rast demo_file (world_of demo_tree)))) =
       [(''/app/assets/PLACEHOLDER_ICON.svg'', 1024, 1024),
        (''/app/assets/PLACEHOLDER_ICON.svg'', 1024, 1024),
        (''/app/assets/PLACEHOLDER_ICON.svg'', 48, 48),
        (''/app/assets/PLACEHOLDER_SPLASH.svg'', 1284, 2778)]"
  by (simp add: demo_eval conv_events_def)





subsection \<open>A conversion that raises\<close>




subsection \<open>A run that returns\<close>


section \<open>The claims\<close>



text \<open>
  C2. For every run in which \<^verbatim>\<open>PLACEHOLDER_ICON.svg\<close> does not exist, \<^verbatim>\<open>main\<close> prints an
  error identifying the missing path, returns exit status 1, attempts no conversion and
  produces zero output files.

  The directory step \<^verbatim>\<open>icons_dir.mkdir(exist_ok=True)\<close> comes before the check and can
  raise. As amended: in every such run no conversion is requested, no file is written,
  no path but the icons directory changes and the status of the process is 1; when the
  directory step does not raise, \<^verbatim>\<open>main\<close> prints the error with the missing path and
  returns 1, and these are its only effects after the directory step; when the directory
  step raises, its exception leaves \<^verbatim>\<open>main\<close> and nothing more is done.
\<close>

theorem icon_missing_run:
  assumes run: "main rast file w = (r, w')"
    and missing: "files w (icon_svg file) = None"
  shows "exit_status r = 1
    \<and> requests (events w') = requests (events w)
    \<and> written (events w') = written (events w)
    \<and> (\<forall>p. p \<noteq> icons_dir file \<longrightarrow> files w' p = files w p)
    \<and> (fst (mkdir_exist_ok (icons_dir file) w) = Inr () \<longrightarrow>
          r = Inr 1
          \<and> events w' = events w @ [Mkdir (icons_dir file), Exists (icon_svg file),
                Printed (''Error: '' @ path_str (icon_svg file) @ '' not found!'')])
    \<and> (\<forall>e. fst (mkdir_exist_ok (icons_dir file) w) = Inl e \<longrightarrow>
          r = Inl e \<and> events w' = events w @ [Mkdir (icons_dir file)])"
  using run
proof (cases rule: main_run)
  case (mkdir_raises e)
  from mkdir_run(1) [OF mkdir_raises(2)] mkdir_run(3) [OF mkdir_raises(2) refl] mkdir_raises
  show ?thesis by (simp add: exit_status_def)
next
  case (icon_missing w0)
  from mkdir_run(1) [OF icon_missing(1)] mkdir_run(2) [OF icon_missing(1) refl] icon_missing
  show ?thesis by (simp add: exit_status_def not_found_msg_def)
next
  case (splash_missing w0)
  from mkdir_run(2) [OF splash_missing(1) refl] missing splash_missing(2) show ?thesis
    by (simp add: paths_neq)
next
  case (batch_raises w0 e)
  from mkdir_run(2) [OF batch_raises(1) refl] missing batch_raises(2) show ?thesis
    by (simp add: paths_neq)
next
  case (success w0 w4)
  from mkdir_run(2) [OF success(1) refl] missing success(2) show ?thesis
    by (simp add: paths_neq)
qed

theorem icon_missing_run_witness:
  "files (world_of (without (icon_svg demo_file) demo_tree)) (icon_svg demo_file) = None
   \<and> fst (main demo_rast demo_file (world_of (without (icon_svg demo_file) demo_tree))) = Inr 1
   \<and> events (snd (main demo_rast demo_file (world_of (without (icon_svg demo_file) demo_tree)))) =
       [Mkdir (Path ''/'' [''app'', ''assets'', ''icons'']),
        Exists (Path ''/'' [''app'', ''assets'', ''PLACEHOLDER_ICON.svg'']),
        Printed ''Error: /app/assets/PLACEHOLDER_ICON.svg not found!'']
   \<and> files (snd (main demo_rast demo_file (world_of (without (icon_svg demo_file) demo_tree))))
         (icon_png demo_file) = None"
proof -
  let ?w = "world_of (without (icon_svg demo_file) demo_tree)"
  have missing: "files ?w (icon_svg demo_file) = None"
    by (simp add: demo_eval tree_eval)
  have dir_step: "fst (mkdir_exist_ok (icons_dir demo_file) ?w) = Inr ()"
    by (simp add: demo_eval tree_eval)
  have png: "files ?w (icon_png demo_file) = None"
    by (simp add: demo_eval tree_eval)
  from icon_missing_run [OF surjective_pairing missing] dir_step missing png show ?thesis
    by (simp add: demo_paths path_str_def world_of_def)
qed

text \<open>
  The claim as stated fails where a regular file named \<^verbatim>\<open>icons\<close> stands beside the script:
  the template is missing, yet \<^verbatim>\<open>main\<close> raises \<^verbatim>\<open>FileExistsError\<close>, returns nothing and
  prints nothing.
\<close>

theorem icon_missing_counterexample:
  "files (world_of (without (icon_svg demo_file) blocked_tree)) (icon_svg demo_file) = None
   \<and> fst (main demo_rast demo_file (world_of (without (icon_svg demo_file) blocked_tree))) =
       Inl (FileExistsError (Path ''/'' [''app'', ''assets'', ''icons'']))
   \<and> printed (events (snd (main demo_rast demo_file
         (world_of (without (icon_svg demo_file) blocked_tree))))) = []"
  by (simp add: demo_eval tree_eval)

text \<open>
  C3. For every run in which \<^verbatim>\<open>PLACEHOLDER_SPLASH.svg\<close> does not exist (whether or not
  \<^verbatim>\<open>PLACEHOLDER_ICON.svg\<close> exists), \<^verbatim>\<open>main\<close> returns exit status 1 and attempts no
  further step after the failed check.

  As amended, for the directory step that precedes the checks: in every such run the
  status of the process is 1, no conversion is requested and no file is written; when
  the directory step does not raise, \<^verbatim>\<open>main\<close> returns 1 and its effects end with the
  failed check and its message (the icon check when the icon is missing too, the splash
  check otherwise); when the directory step raises, its exception leaves \<^verbatim>\<open>main\<close>.
\<close>

theorem splash_missing_run:
  assumes run: "main rast file w = (r, w')"
    and missing: "files w (splash_svg file) = None"
  shows "exit_status r = 1
    \<and> requests (events w') = requests (events w)
    \<and> written (events w') = written (events w)
    \<and> (\<forall>p. p \<noteq> icons_dir file \<longrightarrow> files w' p = files w p)
    \<and> (fst (mkdir_exist_ok (icons_dir file) w) = Inr () \<longrightarrow>
          r = Inr 1
          \<and> events w' = events w @
               (if files w (icon_svg file) = None
                then [Mkdir (icons_dir file), Exists (icon_svg file),
                      Printed (''Error: '' @ path_str (icon_svg file) @ '' not found!'')]
                else [Mkdir (icons_dir file), Exists (icon_svg file), Exists (splash_svg file),
                      Printed (''Error: '' @ path_str (splash_svg file) @ '' not found!'')]))
    \<and> (\<forall>e. fst (mkdir_exist_ok (icons_dir file) w) = Inl e \<longrightarrow>
          r = Inl e \<and> events w' = events w @ [Mkdir (icons_dir file)])"
  using run
proof (cases rule: main_run)
  case (mkdir_raises e)
  from mkdir_run(1) [OF mkdir_raises(2)] mkdir_run(3) [OF mkdir_raises(2) refl] mkdir_raises
  show ?thesis by (simp add: exit_status_def)
next
  case (icon_missing w0)
  from mkdir_run(1) [OF icon_missing(1)] mkdir_run(2) [OF icon_missing(1) refl] icon_missing
  show ?thesis by (simp add: exit_status_def not_found_msg_def paths_neq)
next
  case (splash_missing w0)
  from mkdir_run(1) [OF splash_missing(1)] mkdir_run(2) [OF splash_missing(1) refl] splash_missing
  show ?thesis by (simp add: exit_status_def not_found_msg_def paths_neq)
next
  case (batch_raises w0 e)
  from mkdir_run(2) [OF batch_raises(1) refl] missing batch_raises(3) show ?thesis
    by (simp add: paths_neq)
next
  case (success w0 w4)
  from mkdir_run(2) [OF success(1) refl] missing success(3) show ?thesis
    by (simp add: paths_neq)
qed

theorem splash_missing_run_witness:
  "files (world_of (without (splash_svg demo_file) demo_tree)) (splash_svg demo_file) = None
   \<and> fst (main demo_rast demo_file (world_of (without (splash_svg demo_file) demo_tree))) = Inr 1
   \<and> events (snd (main demo_rast demo_file (world_of (without (splash_svg demo_file) demo_tree)))) =
       [Mkdir (Path ''/'' [''app'', ''assets'', ''icons'']),
        Exists (Path ''/'' [''app'', ''assets'', ''PLACEHOLDER_ICON.svg'']),
        Exists (Path ''/'' [''app'', ''assets'', ''PLACEHOLDER_SPLASH.svg'']),
        Printed ''Error: /app/assets/PLACEHOLDER_SPLASH.svg not found!'']"
proof -
  let ?w = "world_of (without (splash_svg demo_file) demo_tree)"
  have missing: "files ?w (splash_svg demo_file) = None"
    by (simp add: demo_eval tree_eval)
  have icon: "files ?w (icon_svg demo_file) \<noteq> None"
    by (simp add: demo_eval tree_eval)
  have dir_step: "fst (mkdir_exist_ok (icons_dir demo_file) ?w) = Inr ()"
    by (simp add: demo_eval tree_eval)
  from splash_missing_run [OF surjective_pairing missing] dir_step missing icon show ?thesis
    by (simp add: demo_paths path_str_def world_of_def)
qed

text \<open>
  The claim as stated fails in the same installation with a regular file named
  \<^verbatim>\<open>icons\<close>: the splash template is missing, yet \<^verbatim>\<open>main\<close> raises and returns nothing.
\<close>

theorem splash_missing_counterexample:
  "files (world_of (without (splash_svg demo_file) blocked_tree)) (splash_svg demo_file) = None
   \<and> fst (main demo_rast demo_file (world_of (without (splash_svg demo_file) blocked_tree))) =
       Inl (FileExistsError (Path ''/'' [''app'', ''assets'', ''icons'']))
   \<and> events (snd (main demo_rast demo_file
         (world_of (without (splash_svg demo_file) blocked_tree)))) =
       [Mkdir (Path ''/'' [''app'', ''assets'', ''icons''])]"
  by (simp add: demo_eval tree_eval)











text \<open>
  C8. For every run in which the icons directory exists already, the run does not fail
  because of it, and every file of that directory other than icon.png, adaptive-icon.png
  and favicon.png is left as it was: the program writes the four output paths only.

  With the directory there, the directory step returns and changes no file; if \<^verbatim>\<open>main\<close>
  raises at all, it has requested a rasterisation before, so the exception is a
  conversion's. Whatever the run does, every path other than the four outputs keeps its
  content (in particular every entry of the icons directory other than the three), and
  the files written are among the four.
\<close>

theorem existing_icons_dir_frame:
  assumes run: "main rast file w = (r, w')"
    and dir: "files w (icons_dir file) = Some Dir"
  shows "fst (mkdir_exist_ok (icons_dir file) w) = Inr ()
    \<and> files (snd (mkdir_exist_ok (icons_dir file) w)) = files w
    \<and> (\<forall>e. r = Inl e \<longrightarrow> requests (events w') \<noteq> requests (events w))
    \<and> (\<forall>p. p \<notin> {icon_png file, adaptive_icon_png file, favicon_png file, splash_png file}
          \<longrightarrow> files w' p = files w p)
    \<and> (\<forall>p. parent p = icons_dir file
            \<and> p \<notin> {icon_png file, adaptive_icon_png file, favicon_png file}
          \<longrightarrow> files w' p = files w p)
    \<and> set (map fst (written (events w')))
        \<subseteq> set (map fst (written (events w)))
          \<union> {icon_png file, adaptive_icon_png file, favicon_png file, splash_png file}"
proof -
  let ?w0 = "w\<lparr>events := events w @ [Mkdir (icons_dir file)]\<rparr>"
  let ?outs = "{icon_png file, adaptive_icon_png file, favicon_png file, splash_png file}"
  have step: "mkdir_exist_ok (icons_dir file) w = (Inr (), ?w0)"
    by (rule mkdir_existing [OF dir])
  from main_any [OF run step] obtain evs where
    frame: "\<forall>p. p \<notin> ?outs \<longrightarrow> files w' p = files ?w0 p"
    and ev: "events w' = events ?w0 @ evs"
    and wr: "set (map fst (written evs)) \<subseteq> ?outs"
    and rq: "(\<exists>e. r = Inl e) \<longrightarrow> requests evs \<noteq> []"
    by blast
  have c1: "fst (mkdir_exist_ok (icons_dir file) w) = Inr ()"
    and c2: "files (snd (mkdir_exist_ok (icons_dir file) w)) = files w"
    by (simp_all add: step)
  have c3: "\<forall>e. r = Inl e \<longrightarrow> requests (events w') \<noteq> requests (events w)"
    using rq by (simp add: ev)
  have c4: "\<forall>p. p \<notin> ?outs \<longrightarrow> files w' p = files w p"
    using frame by simp
  have "parent (splash_png file) \<noteq> icons_dir file"
    unfolding path_parents(5) by (simp add: assets_dir_def icons_dir_def joinpath_def parent_def)
  then have inside: "\<And>p. parent p = icons_dir file \<Longrightarrow> p \<noteq> splash_png file"
    by blast
  have c5: "\<forall>p. parent p = icons_dir file
            \<and> p \<notin> {icon_png file, adaptive_icon_png file, favicon_png file}
          \<longrightarrow> files w' p = files w p"
  proof (intro allI impI)
    fix p
    assume p: "parent p = icons_dir file
        \<and> p \<notin> {icon_png file, adaptive_icon_png file, favicon_png file}"
    with inside [of p] have "p \<notin> ?outs" by simp
    with c4 show "files w' p = files w p" by blast
  qed
  have "written (events w') = written (events w) @ written evs"
    by (simp add: ev)
  then have c6: "set (map fst (written (events w')))
        \<subseteq> set (map fst (written (events w))) \<union> ?outs"
    using wr by auto
  from c1 c2 c3 c4 c5 c6 show ?thesis by blast
qed

theorem existing_icons_dir_frame_witness:
  "files (world_of kept_tree) (icons_dir demo_file) = Some Dir
   \<and> fst (main demo_rast demo_file (world_of kept_tree)) = Inr 0
   \<and> fst (mkdir_exist_ok (icons_dir demo_file) (world_of kept_tree)) = Inr ()
   \<and> files (snd (main demo_rast demo_file (world_of kept_tree)))
        (Path ''/'' [''app'', ''assets'', ''icons'', ''notes.txt'']) = Some (File ''keep me'')"
proof -
  let ?w = "world_of kept_tree"
  let ?notes = "Path ''/'' [''app'', ''assets'', ''icons'', ''notes.txt'']"
  have dir: "files ?w (icons_dir demo_file) = Some Dir"
    by (simp add: world_of_def kept_tree_def demo_tree_def demo_paths)
  have kept: "files ?w ?notes = Some (File ''keep me'')"
    by (simp add: world_of_def kept_tree_def demo_tree_def)
  have other: "?notes \<notin> {icon_png demo_file, adaptive_icon_png demo_file,
      favicon_png demo_file, splash_png demo_file}"
    by (simp add: demo_paths)
  from existing_icons_dir_frame [OF surjective_pairing dir, of demo_rast] other
  have "fst (mkdir_exist_ok (icons_dir demo_file) ?w) = Inr ()"
    and "files (snd (main demo_rast demo_file ?w)) ?notes = files ?w ?notes"
    by blast+
  with dir kept kept_run show ?thesis by simp
qed

text \<open>
  C9. Both input checks, icon and splash, are performed before any conversion is
  attempted; so in every run in which \<^verbatim>\<open>PLACEHOLDER_SPLASH.svg\<close> is missing no output file
  is produced: no icon conversion runs before the splash check.

  A run that requests any rasterisation has begun with the directory step and the two
  checks, in that order, and both templates were there. A run without the splash
  template requests nothing, writes nothing and changes no path but the icons directory.
\<close>

theorem checks_before_conversions:
  assumes run: "main rast file w = (r, w')"
  shows "(requests (events w') \<noteq> requests (events w) \<longrightarrow>
            files w (icon_svg file) \<noteq> None \<and> files w (splash_svg file) \<noteq> None
            \<and> (\<exists>rest. events w' = events w @ Mkdir (icons_dir file) # Exists (icon_svg file)
                   # Exists (splash_svg file) # rest))
    \<and> (files w (splash_svg file) = None \<longrightarrow>
            requests (events w') = requests (events w)
            \<and> written (events w') = written (events w)
            \<and> (\<forall>p. p \<noteq> icons_dir file \<longrightarrow> files w' p = files w p))"
  using run
proof (cases rule: main_run)
  case (mkdir_raises e)
  from mkdir_run(1) [OF mkdir_raises(2)] mkdir_run(3) [OF mkdir_raises(2) refl]
  show ?thesis by simp
next
  case (icon_missing w0)
  from mkdir_run(1) [OF icon_missing(1)] mkdir_run(2) [OF icon_missing(1) refl] icon_missing(4)
  show ?thesis by simp
next
  case (splash_missing w0)
  from mkdir_run(1) [OF splash_missing(1)] mkdir_run(2) [OF splash_missing(1) refl]
    splash_missing(5)
  show ?thesis by simp
next
  case (batch_raises w0 e)
  have ev0: "events w0 = events w @ [Mkdir (icons_dir file)]"
    by (rule mkdir_run(1) [OF batch_raises(1)])
  have f0: "files w0 = (files w)(icons_dir file \<mapsto> Dir)"
    using mkdir_run(2) [OF batch_raises(1) refl] by simp
  from batch_raises(2,3) have inputs:
    "files w (icon_svg file) \<noteq> None" "files w (splash_svg file) \<noteq> None"
    by (simp_all add: f0 paths_neq)
  from run_batch_any [OF batch_raises(5)] obtain evs where
    "events w' = (events w0 @ [Exists (icon_svg file), Exists (splash_svg file)]) @ evs"
    by auto
  then have "events w' = events w @ Mkdir (icons_dir file) # Exists (icon_svg file)
      # Exists (splash_svg file) # evs"
    by (simp add: ev0)
  with inputs show ?thesis by auto
next
  case (success w0 w4)
  have ev0: "events w0 = events w @ [Mkdir (icons_dir file)]"
    by (rule mkdir_run(1) [OF success(1)])
  have f0: "files w0 = (files w)(icons_dir file \<mapsto> Dir)"
    using mkdir_run(2) [OF success(1) refl] by simp
  from success(2,3) have inputs:
    "files w (icon_svg file) \<noteq> None" "files w (splash_svg file) \<noteq> None"
    by (simp_all add: f0 paths_neq)
  from run_batch_any [OF success(5)] obtain evs where
    "events w4 = (events w0 @ [Exists (icon_svg file), Exists (splash_svg file)]) @ evs"
    by auto
  then have "events w' = events w @ Mkdir (icons_dir file) # Exists (icon_svg file)
      # Exists (splash_svg file) # (evs @ map Printed summary_lines)"
    by (simp add: ev0 success(6))
  with inputs show ?thesis by auto
qed

theorem checks_before_conversions_witness:
  "requests (events (snd (main demo_rast demo_file (world_of demo_tree)))) \<noteq> []
   \<and> (\<exists>rest. events (snd (main demo_rast demo_file (world_of demo_tree)))
        = Mkdir (icons_dir demo_file) # Exists (icon_svg demo_file)
          # Exists (splash_svg demo_file) # rest)
   \<and> files (world_of (without (splash_svg demo_file) demo_tree)) (splash_svg demo_file) = None
   \<and> requests (events (snd (main demo_rast demo_file
        (world_of (without (splash_svg demo_file) demo_tree))))) = []
   \<and> written (events (snd (main demo_rast demo_file
        (world_of (without (splash_svg demo_file) demo_tree))))) = []"
proof -
  let ?w = "world_of demo_tree"
  let ?v = "world_of (without (splash_svg demo_file) demo_tree)"
  have fresh: "events ?w = []" "events ?v = []"
    by (simp_all add: world_of_def)
  have attempted: "requests (events (snd (main demo_rast demo_file ?w))) \<noteq> requests (events ?w)"
    unfolding fresh by (simp add: demo_main_requests)
  have missing: "files ?v (splash_svg demo_file) = None"
    by (simp add: demo_eval tree_eval)
  from checks_before_conversions [OF surjective_pairing, of demo_rast demo_file ?w] attempted
  have first: "\<exists>rest. events (snd (main demo_rast demo_file ?w))
        = events ?w @ Mkdir (icons_dir demo_file) # Exists (icon_svg demo_file)
          # Exists (splash_svg demo_file) # rest"
    by blast
  from checks_before_conversions [OF surjective_pairing, of demo_rast demo_file ?v] missing
  have none: "requests (events (snd (main demo_rast demo_file ?v))) = requests (events ?v)"
    "written (events (snd (main demo_rast demo_file ?v))) = written (events ?v)"
    by blast+
  from attempted first none missing show ?thesis
    by (simp add: fresh)
qed




end
